theory Spec2Isabelle
  imports Main "HOL-Library.Sublist"
begin

section \<open>WaterGuard backend (app.py): data model\<close>

text \<open>
  The model covers the six route handlers of \<^verbatim>\<open>app.py\<close> for one client.
  A Python \<^verbatim>\<open>str\<close> is represented by its UTF-8 encoding, so \<^verbatim>\<open>password.encode()\<close>
  is the identity on the representation, and the emoji of the source's literals are
  written as their bytes; a string with a lone surrogate has no UTF-8 encoding and is
  outside the representation. A request body is a JSON object whose values are strings
  or \<^verbatim>\<open>null\<close>. Everything outside the program (bcrypt, the SMTP relay, the LLM
  client, the salt generator) is a field of the environment \<open>env\<close>, one
  environment per request. The SQLite table is a list of rows in insertion order;
  the database itself is assumed not to fail other than by the UNIQUE constraint.
\<close>

subsection \<open>Values, exceptions, responses\<close>

text \<open>The parsed body \<^verbatim>\<open>request.json\<close>: keys with a string or \<^verbatim>\<open>null\<close> (\<open>None\<close>).\<close>

type_synonym payload = "(string \<times> string option) list"

text \<open>\<^verbatim>\<open>data.get(key)\<close>: \<open>None\<close> for an absent key as for a \<^verbatim>\<open>null\<close> value.\<close>

definition get :: "payload \<Rightarrow> string \<Rightarrow> string option" where
  "get data key = (case map_of data key of None \<Rightarrow> None | Some v \<Rightarrow> v)"

text \<open>\<^verbatim>\<open>data.get(key, default)\<close>: the default only for an absent key.\<close>

definition get_default :: "payload \<Rightarrow> string \<Rightarrow> string option \<Rightarrow> string option" where
  "get_default data key d = (case map_of data key of None \<Rightarrow> d | Some v \<Rightarrow> v)"

text \<open>
  Python truthiness of a value that is \<open>None\<close> or a string: \<open>truthy v = Some s\<close>
  exactly when \<^verbatim>\<open>not v\<close> is false, and then \<open>s\<close> is the string.
\<close>

fun truthy :: "string option \<Rightarrow> string option" where
  "truthy None = None"
| "truthy (Some s) = (if s = [] then None else Some s)"

text \<open>What an f-string writes for \<^verbatim>\<open>{v}\<close>: \<^verbatim>\<open>str(None)\<close> is \<^verbatim>\<open>'None'\<close>.\<close>

fun pystr :: "string option \<Rightarrow> string" where
  "pystr None = ''None''"
| "pystr (Some s) = s"

text \<open>\<^verbatim>\<open>str.encode()\<close> on the UTF-8 representation.\<close>

definition encode :: "string \<Rightarrow> string" where
  "encode s = s"

text \<open>
  The exceptions of the model: \<open>IntegrityError\<close> is \<^verbatim>\<open>sqlite3.IntegrityError\<close>,
  \<open>AttributeError\<close> is what \<^verbatim>\<open>None.encode()\<close> raises, and \<open>Failure s\<close> is any
  exception raised by an external library, with \<^verbatim>\<open>str(e) = s\<close>.
\<close>

datatype exn = IntegrityError | AttributeError | Failure string

fun exn_str :: "exn \<Rightarrow> string" where
  "exn_str IntegrityError = ''UNIQUE constraint failed: users.email''"
| "exn_str AttributeError =
     [CHR 0x27] @ ''NoneType'' @ [CHR 0x27] @ '' object has no attribute ''
       @ [CHR 0x27] @ ''encode'' @ [CHR 0x27]"
| "exn_str (Failure s) = s"

text \<open>The JSON bodies the handlers build with \<^verbatim>\<open>jsonify\<close>.\<close>

datatype body = Message string | Reply string | Authenticated bool

text \<open>
  A handler returns a status and a body (\<open>Inr\<close>), or lets an exception escape
  (\<open>Inl\<close>); Flask answers an escaped exception with its own error page, which is
  none of the JSON bodies above.
\<close>

type_synonym response = "nat \<times> body"
type_synonym outcome = "exn + response"

subsection \<open>Users table, mail, state, environment\<close>

record user =
  user_id :: nat
  user_name :: string
  user_email :: string
  user_password :: string

record mail =
  mail_to :: "string option"
  mail_from :: string
  mail_subject :: string
  mail_body :: string

text \<open>
  \<open>users\<close> is the table of \<^verbatim>\<open>users.db\<close>, \<open>session_user\<close> is \<^verbatim>\<open>session['user']\<close>
  (\<open>None\<close> when the key is absent), \<open>outbox\<close> lists the messages the relay accepted.
\<close>

record state =
  users :: "user list"
  session_user :: "string option"
  outbox :: "mail list"

text \<open>
  The environment of one request. \<open>hashpw\<close> and \<open>checkpw\<close> are bcrypt's functions
  (\<open>Inl s\<close>: an exception with text \<open>s\<close>), \<open>gensalt\<close> the salt \<^verbatim>\<open>bcrypt.gensalt()\<close>
  draws, \<open>smtp_send\<close> the outcome of the whole SMTP exchange for a message
  (\<open>Some s\<close>: an exception with text \<open>s\<close>), and \<open>llm_invoke\<close> the outcome of
  \<^verbatim>\<open>llm.invoke([HumanMessage(content=prompt)]).content.strip()\<close>.
\<close>

record env =
  SENDER_EMAIL :: string
  gensalt :: string
  hashpw :: "string \<Rightarrow> string \<Rightarrow> string + string"
  checkpw :: "string \<Rightarrow> string \<Rightarrow> string + bool"
  smtp_send :: "mail \<Rightarrow> string option"
  llm_invoke :: "string \<Rightarrow> string + string"

subsection \<open>The text literals of the source\<close>

definition cross_mark :: string where
  "cross_mark = [CHR 0xE2, CHR 0x9D, CHR 0x8C]"

definition check_mark :: string where
  "check_mark = [CHR 0xE2, CHR 0x9C, CHR 0x85]"

definition droplet :: string where
  "droplet = [CHR 0xF0, CHR 0x9F, CHR 0x92, CHR 0xA7]"

definition em_dash :: string where
  "em_dash = [CHR 0xE2, CHR 0x80, CHR 0x94]"

definition msg_valid_question :: string where
  "msg_valid_question = cross_mark @ '' Please provide a valid question.''"

definition msg_error_occurred :: "string \<Rightarrow> string" where
  "msg_error_occurred e = cross_mark @ '' An error occurred: '' @ e"

definition msg_all_fields_required :: string where
  "msg_all_fields_required = cross_mark @ '' All fields required''"

definition msg_signup_successful :: string where
  "msg_signup_successful = check_mark @ '' Signup successful and welcome email sent!''"

definition msg_email_registered :: string where
  "msg_email_registered = cross_mark @ '' Email already registered''"

definition msg_server_error :: "string \<Rightarrow> string" where
  "msg_server_error e = cross_mark @ '' Server error: '' @ e"

definition msg_login_successful :: string where
  "msg_login_successful = check_mark @ '' Login successful''"

definition msg_invalid_credentials :: string where
  "msg_invalid_credentials = cross_mark @ '' Invalid credentials''"

definition msg_logged_out :: string where
  "msg_logged_out = check_mark @ '' Logged out''"

definition msg_please_login :: string where
  "msg_please_login = cross_mark @ '' Please login to book a kit.''"

definition msg_booking_confirmed :: string where
  "msg_booking_confirmed = check_mark @ '' Booking confirmed and email sent!''"

definition msg_sending_failed :: "string \<Rightarrow> string" where
  "msg_sending_failed e = cross_mark @ '' Email sending failed: '' @ e"

definition chat_prompt :: "string \<Rightarrow> string" where
  "chat_prompt user_prompt =
     ''You are AquaBot, an expert on water sanitation and cleaning. ''
     @ ''Answer the user'' @ [CHR 0x27]
     @ ''s question clearly and accurately with practical and reliable information.''
     @ ''\<newline>\<newline>User'' @ [CHR 0x27] @ ''s Question: '' @ user_prompt
     @ ''\<newline>Answer:''"

definition welcome_subject :: string where
  "welcome_subject = [CHR 0xF0, CHR 0x9F, CHR 0x8E, CHR 0x89] @ '' Welcome to WaterGuard!''"

definition welcome_body :: "string \<Rightarrow> string" where
  "welcome_body name =
     ''Hi '' @ name @ '',\<newline>\<newline>Thank you for signing up to '' @ droplet
     @ '' WaterGuard '' @ em_dash
     @ '' your smart partner for clean and safe water!\<newline>\<newline>''
     @ [CHR 0xF0, CHR 0x9F, CHR 0x9A, CHR 0x80]
     @ '' Features you now have access to:\<newline>''
     @ ''- Check your water quality instantly\<newline>''
     @ ''- Book doorstep testing kits\<newline>''
     @ ''- Chat with AquaBot for water safety advice\<newline>''
     @ ''- Get personalized insights & alerts\<newline>\<newline>''
     @ ''Explore now: https://your-waterguard-site.com\<newline>\<newline>''
     @ ''Clean water. Clear life.\<newline>'' @ em_dash @ '' Team WaterGuard\<newline>''"

definition booking_subject :: string where
  "booking_subject = check_mark @ '' WaterGuard Kit Booking Confirmed!''"

definition booking_body :: "string \<Rightarrow> string \<Rightarrow> string \<Rightarrow> string" where
  "booking_body name address date =
     ''Hi '' @ name
     @ '',\<newline>\<newline>Thanks for booking your Water Testing Kit with '' @ droplet
     @ '' WaterGuard!\<newline>\<newline>'' @ [CHR 0xF0, CHR 0x9F, CHR 0x93, CHR 0x8D]
     @ '' Address:\<newline>'' @ address @ ''\<newline>\<newline>''
     @ [CHR 0xF0, CHR 0x9F, CHR 0x93, CHR 0xA6]
     @ '' Your kit will reach your doorstep by: '' @ date @ ''\<newline>\<newline>''
     @ [CHR 0xF0, CHR 0x9F, CHR 0x93, CHR 0x98] @ '' The kit includes:\<newline>''
     @ ''- pH Level Tester\<newline>- TDS Meter\<newline>- Turbidity Check\<newline>''
     @ ''- Temperature Sensor\<newline>- Setup Manual\<newline>\<newline>''
     @ ''Stay safe & drink clean '' @ [CHR 0xF0, CHR 0x9F, CHR 0x8C, CHR 0x8A]
     @ ''\<newline>'' @ em_dash @ '' Team WaterGuard\<newline>''"

section \<open>Operations\<close>

subsection \<open>The users table\<close>

text \<open>
  \<^verbatim>\<open>id INTEGER PRIMARY KEY AUTOINCREMENT\<close>: one more than the largest id ever used;
  no row is ever deleted, so that is the largest id in the table.
\<close>

definition next_id :: "user list \<Rightarrow> nat" where
  "next_id us = Suc (fold max (map user_id us) 0)"

text \<open>
  \<^verbatim>\<open>INSERT INTO users (name, email, password) VALUES (?, ?, ?)\<close> followed by the
  commit: \<^verbatim>\<open>email TEXT UNIQUE\<close> rejects an email some row already has.
\<close>

definition new_user :: "user list \<Rightarrow> string \<Rightarrow> string \<Rightarrow> string \<Rightarrow> user" where
  "new_user us name email hashed_pw =
     \<lparr>user_id = next_id us, user_name = name, user_email = email,
      user_password = hashed_pw\<rparr>"

definition db_insert :: "user list \<Rightarrow> string \<Rightarrow> string \<Rightarrow> string \<Rightarrow> exn + user list" where
  "db_insert us name email hashed_pw =
     (if email \<in> set (map user_email us) then Inl IntegrityError
      else Inr (us @ [new_user us name email hashed_pw]))"

text \<open>
  \<^verbatim>\<open>SELECT password FROM users WHERE email = ?\<close> and \<^verbatim>\<open>fetchone()\<close>: the first
  matching row; comparing with NULL (an email that is \<open>None\<close>) matches no row.
\<close>

fun db_select_password :: "user list \<Rightarrow> string option \<Rightarrow> string option" where
  "db_select_password us None = None"
| "db_select_password us (Some email) =
     map_option user_password (find (\<lambda>u. user_email u = email) us)"

subsection \<open>Email utility\<close>

definition send_email :: "env \<Rightarrow> string option \<Rightarrow> string \<Rightarrow> string \<Rightarrow> state \<Rightarrow> exn + state" where
  "send_email E to subject body st =
     (let msg = \<lparr>mail_to = to, mail_from = SENDER_EMAIL E, mail_subject = subject,
                 mail_body = body\<rparr>
      in case smtp_send E msg of
           Some e \<Rightarrow> Inl (Failure e)
         | None \<Rightarrow> Inr (st\<lparr>outbox := outbox st @ [msg]\<rparr>))"

text \<open>The message \<^verbatim>\<open>signup\<close> hands to \<^verbatim>\<open>send_email\<close>.\<close>

definition welcome_mail :: "env \<Rightarrow> string \<Rightarrow> string \<Rightarrow> mail" where
  "welcome_mail E name email =
     \<lparr>mail_to = Some email, mail_from = SENDER_EMAIL E, mail_subject = welcome_subject,
      mail_body = welcome_body name\<rparr>"

subsection \<open>Route handlers\<close>

definition chat :: "env \<Rightarrow> payload \<Rightarrow> state \<Rightarrow> outcome \<times> state" where
  "chat E data st =
     (case truthy (get_default data ''prompt'' (Some [])) of
        None \<Rightarrow> (Inr (400, Reply msg_valid_question), st)
      | Some user_prompt \<Rightarrow>
          (case llm_invoke E (chat_prompt user_prompt) of
             Inl e \<Rightarrow> (Inr (500, Reply (msg_error_occurred e)), st)
           | Inr content \<Rightarrow> (Inr (200, Reply content), st)))"

text \<open>The body of the \<^verbatim>\<open>try\<close> block of \<^verbatim>\<open>signup\<close>, with the state it leaves behind.\<close>

definition signup_try :: "env \<Rightarrow> string \<Rightarrow> string \<Rightarrow> string \<Rightarrow> state \<Rightarrow> outcome \<times> state" where
  "signup_try E name email hashed_pw st =
     (case db_insert (users st) name email hashed_pw of
        Inl e \<Rightarrow> (Inl e, st)
      | Inr us \<Rightarrow>
          (let st1 = st\<lparr>users := us\<rparr> in
           case send_email E (Some email) welcome_subject (welcome_body name) st1 of
             Inl e \<Rightarrow> (Inl e, st1)
           | Inr st2 \<Rightarrow>
               (Inr (200, Message msg_signup_successful),
                st2\<lparr>session_user := Some email\<rparr>)))"

text \<open>The two \<^verbatim>\<open>except\<close> clauses of \<^verbatim>\<open>signup\<close>, in the source's order.\<close>

fun signup_except :: "exn \<Rightarrow> response" where
  "signup_except IntegrityError = (409, Message msg_email_registered)"
| "signup_except e = (500, Message (msg_server_error (exn_str e)))"

definition signup :: "env \<Rightarrow> payload \<Rightarrow> state \<Rightarrow> outcome \<times> state" where
  "signup E data st =
     (case (truthy (get data ''name''), truthy (get data ''email''),
            truthy (get data ''password'')) of
        (Some name, Some email, Some password) \<Rightarrow>
          (case hashpw E (encode password) (gensalt E) of
             Inl e \<Rightarrow> (Inl (Failure e), st)
           | Inr hashed_pw \<Rightarrow>
               (case signup_try E name email hashed_pw st of
                  (Inl e, st') \<Rightarrow> (Inr (signup_except e), st')
                | (Inr r, st') \<Rightarrow> (Inr r, st')))
      | _ \<Rightarrow> (Inr (400, Message msg_all_fields_required), st))"

definition login :: "env \<Rightarrow> payload \<Rightarrow> state \<Rightarrow> outcome \<times> state" where
  "login E data st =
     (let email = get data ''email''; password = get data ''password'' in
      case db_select_password (users st) email of
        None \<Rightarrow> (Inr (401, Message msg_invalid_credentials), st)
      | Some stored \<Rightarrow>
          (case password of
             None \<Rightarrow> (Inl AttributeError, st)
           | Some pw \<Rightarrow>
               (case checkpw E (encode pw) stored of
                  Inl e \<Rightarrow> (Inl (Failure e), st)
                | Inr True \<Rightarrow>
                    (Inr (200, Message msg_login_successful), st\<lparr>session_user := email\<rparr>)
                | Inr False \<Rightarrow> (Inr (401, Message msg_invalid_credentials), st))))"

definition logout :: "state \<Rightarrow> outcome \<times> state" where
  "logout st = (Inr (200, Message msg_logged_out), st\<lparr>session_user := None\<rparr>)"

definition check_auth :: "state \<Rightarrow> outcome \<times> state" where
  "check_auth st =
     (if session_user st \<noteq> None then (Inr (200, Authenticated True), st)
      else (Inr (401, Authenticated False), st))"

text \<open>The message \<^verbatim>\<open>book_kit\<close> hands to \<^verbatim>\<open>send_email\<close>; \<^verbatim>\<open>phone\<close> is read and not used.\<close>

definition booking_mail :: "env \<Rightarrow> payload \<Rightarrow> mail" where
  "booking_mail E data =
     \<lparr>mail_to = get data ''email'', mail_from = SENDER_EMAIL E,
      mail_subject = booking_subject,
      mail_body = booking_body (pystr (get data ''name'')) (pystr (get data ''address''))
                    (pystr (get data ''date''))\<rparr>"

definition book_kit :: "env \<Rightarrow> payload \<Rightarrow> state \<Rightarrow> outcome \<times> state" where
  "book_kit E data st =
     (if session_user st = None then (Inr (401, Message msg_please_login), st)
      else
        (let name = get data ''name''; email = get data ''email'';
             address = get data ''address''; date = get data ''date''
         in case send_email E email booking_subject
                   (booking_body (pystr name) (pystr address) (pystr date)) st of
              Inr st' \<Rightarrow> (Inr (200, Message msg_booking_confirmed), st')
            | Inl e \<Rightarrow> (Inr (500, Message (msg_sending_failed (exn_str e))), st)))"

subsection \<open>The system as a whole\<close>

datatype request =
    Chat payload
  | Signup payload
  | Login payload
  | Logout
  | CheckAuth
  | BookKit payload

fun handle :: "env \<Rightarrow> request \<Rightarrow> state \<Rightarrow> outcome \<times> state" where
  "handle E (Chat data) st = chat E data st"
| "handle E (Signup data) st = signup E data st"
| "handle E (Login data) st = login E data st"
| "handle E Logout st = logout st"
| "handle E CheckAuth st = check_auth st"
| "handle E (BookKit data) st = book_kit E data st"

text \<open>A sequence of requests, each with its own environment, served one after another.\<close>

fun run :: "(env \<times> request) list \<Rightarrow> state \<Rightarrow> state" where
  "run [] st = st"
| "run ((E, r) # rs) st = run rs (snd (handle E r st))"

subsection \<open>A concrete environment and concrete states\<close>

text \<open>
  A small stand-in for bcrypt (the hash keeps two bytes of salt and reverses the
  password; verification recomputes the hash from the stored one, as bcrypt does), a
  relay that is up or down, and a table with one registered user. They serve to
  evaluate the handlers on concrete requests.
\<close>

definition example_hashpw :: "string \<Rightarrow> string \<Rightarrow> string + string" where
  "example_hashpw pw salt = Inr (take 2 salt @ rev pw)"

definition example_checkpw :: "string \<Rightarrow> string \<Rightarrow> string + bool" where
  "example_checkpw pw hashed =
     (case example_hashpw pw hashed of Inl e \<Rightarrow> Inl e | Inr h \<Rightarrow> Inr (h = hashed))"

definition example_env :: "bool \<Rightarrow> env" where
  "example_env relay_up =
     \<lparr>SENDER_EMAIL = ''noreply@waterguard.example'', gensalt = ''s1'',
      hashpw = example_hashpw, checkpw = example_checkpw,
      smtp_send = (\<lambda>m. if relay_up then None else Some ''connection refused''),
      llm_invoke = (\<lambda>p. Inr ''Boil it.'')\<rparr>"

definition example_user :: user where
  "example_user =
     \<lparr>user_id = 1, user_name = ''Asha'', user_email = ''asha@example.org'',
      user_password = ''s1terces''\<rparr>"

definition example_state :: "string option \<Rightarrow> state" where
  "example_state who = \<lparr>users = [example_user], session_user = who, outbox = []\<rparr>"

definition empty_state :: state where
  "empty_state = \<lparr>users = [], session_user = None, outbox = []\<rparr>"

definition ravi_signup :: payload where
  "ravi_signup = [(''name'', Some ''Ravi''), (''email'', Some ''ravi@example.org''),
                  (''password'', Some ''pw1'')]"


text \<open>
  A bcrypt that refuses passwords over 72 bytes, as bcrypt 5 does, and a login request
  with a 73-byte password.
\<close>

definition strict_checkpw :: "string \<Rightarrow> string \<Rightarrow> string + bool" where
  "strict_checkpw pw hashed =
     (if 72 < length pw then Inl ''password cannot be longer than 72 bytes''
      else example_checkpw pw hashed)"

definition strict_env :: env where
  "strict_env = (example_env True)\<lparr>checkpw := strict_checkpw\<rparr>"

definition long_password :: string where
  "long_password = replicate 73 (CHR ''x'')"

definition long_password_login :: payload where
  "long_password_login =
     [(''email'', Some ''asha@example.org''), (''password'', Some long_password)]"

definition kit_request :: payload where
  "kit_request = [(''email'', Some ''someone.else@example.org''), (''phone'', Some ''555'')]"

section \<open>Properties\<close>

subsection \<open>The users table only grows\<close>

lemma find_append_new:
  "find P xs = None \<Longrightarrow> find P (xs @ [x]) = (if P x then Some x else None)"
  by (induction xs) (auto split: if_splits)

lemma find_None_email:
  "email \<notin> set (map user_email us) \<Longrightarrow> find (\<lambda>u. user_email u = email) us = None"
  by (induction us) auto

lemma db_insert_prefix: "db_insert us n e h = Inr us' \<Longrightarrow> prefix us us'"
  by (auto simp: db_insert_def split: if_splits)

lemma send_email_users: "send_email E to s b st = Inr st' \<Longrightarrow> users st' = users st"
  by (auto simp: send_email_def Let_def split: option.splits)

lemma signup_try_prefix: "prefix (users st) (users (snd (signup_try E n e h st)))"
proof (cases "db_insert (users st) n e h")
  case (Inl x)
  then show ?thesis by (simp add: signup_try_def)
next
  case (Inr us)
  then have p: "prefix (users st) us" by (rule db_insert_prefix)
  show ?thesis
  proof (cases "send_email E (Some e) welcome_subject (welcome_body n) (st\<lparr>users := us\<rparr>)")
    case (Inl x)
    with Inr p show ?thesis by (simp add: signup_try_def)
  next
    case (Inr st2)
    then have "users st2 = us" by (auto dest: send_email_users)
    with Inr \<open>db_insert (users st) n e h = Inr us\<close> p show ?thesis
      by (simp add: signup_try_def)
  qed
qed

lemma signup_prefix: "prefix (users st) (users (snd (signup E data st)))"
proof (cases "signup E data st = (Inr (400, Message msg_all_fields_required), st)")
  case True
  then show ?thesis by simp
next
  case False
  then obtain n e p where f: "truthy (get data ''name'') = Some n"
      "truthy (get data ''email'') = Some e" "truthy (get data ''password'') = Some p"
    by (auto simp: signup_def split: option.splits)
  show ?thesis
  proof (cases "hashpw E (encode p) (gensalt E)")
    case (Inl x)
    with f show ?thesis by (simp add: signup_def)
  next
    case (Inr h)
    have "users (snd (signup E data st)) = users (snd (signup_try E n e h st))"
      using f Inr by (simp add: signup_def split: prod.splits sum.splits)
    then show ?thesis by (simp add: signup_try_prefix)
  qed
qed

lemma login_users: "users (snd (login E data st)) = users st"
  by (auto simp: login_def Let_def split: option.splits sum.splits bool.splits)

lemma chat_users: "users (snd (chat E data st)) = users st"
  by (auto simp: chat_def split: option.splits sum.splits)

lemma book_kit_users: "users (snd (book_kit E data st)) = users st"
  by (auto simp: book_kit_def Let_def split: sum.splits dest: send_email_users)

lemma handle_prefix: "prefix (users st) (users (snd (handle E r st)))"
  by (cases r) (simp_all add: signup_prefix login_users chat_users book_kit_users logout_def check_auth_def)

text \<open>
  C7: no operation updates or deletes a row of the users table. Login leaves the
  table as it is, and after any sequence of requests (whatever the environment does
  at each of them) the table that was there before is a prefix of the table now:
  every row is still there, at its place and unchanged; signup only appends.
\<close>

theorem users_append_only:
  "users (snd (login E data st)) = users st \<and> prefix (users st) (users (run rs st))"
proof
  show "users (snd (login E data st)) = users st" by (rule login_users)
  show "prefix (users st) (users (run rs st))"
  proof (induction rs arbitrary: st)
    case Nil
    show ?case by simp
  next
    case (Cons a rs)
    obtain E r where a: "a = (E, r)" by (cases a)
    have "prefix (users st) (users (snd (handle E r st)))" by (rule handle_prefix)
    also have "prefix \<dots> (users (run rs (snd (handle E r st))))" by (rule Cons.IH)
    finally show ?case by (simp add: a)
  qed
qed

subsection \<open>Session\<close>

text \<open>
  C6: in every state, the \<^verbatim>\<open>check-auth\<close> that follows a \<^verbatim>\<open>logout\<close> answers 401
  with the body \<^verbatim>\<open>{"authenticated": false}\<close>.
\<close>

theorem check_auth_after_logout:
  "fst (check_auth (snd (logout st))) = Inr (401, Authenticated False)"
  by (simp add: check_auth_def logout_def)

text \<open>
  C5: without a session identity, \<^verbatim>\<open>book-kit\<close> answers 401 whatever the payload,
  and changes nothing: in particular no message is sent.
\<close>

theorem book_kit_unauthenticated:
  "session_user st = None \<Longrightarrow>
   book_kit E data st = (Inr (401, Message msg_please_login), st) \<and>
   outbox (snd (book_kit E data st)) = outbox st"
  by (simp add: book_kit_def)

theorem book_kit_unauthenticated_witness:
  "session_user (example_state None) = None \<and>
   book_kit (example_env True) [(''name'', Some ''Asha''), (''email'', None)]
     (example_state None)
   = (Inr (401, Message msg_please_login), example_state None) \<and>
   outbox (snd (book_kit (example_env True) [(''name'', Some ''Asha''), (''email'', None)]
     (example_state None))) = outbox (example_state None)"
  using book_kit_unauthenticated [of "example_state None" "example_env True"
      "[(''name'', Some ''Asha''), (''email'', None)]"]
  by (simp add: example_state_def)

subsection \<open>Login\<close>

lemma select_after_insert:
  assumes "email \<notin> set (map user_email us)"
  shows "db_select_password (us @ [new_user us name email h]) (Some email) = Some h"
  using assms by (simp add: find_append_new find_None_email new_user_def)

lemma get_truthy: "truthy (get data k) = Some s \<Longrightarrow> get data k = Some s"
  by (cases "get data k") (auto split: if_splits)

lemma signup_try_fresh:
  assumes "email \<notin> set (map user_email (users st))"
  shows "signup_try E name email h st =
     (case smtp_send E (welcome_mail E name email) of
        Some e \<Rightarrow> (Inl (Failure e), st\<lparr>users := users st @ [new_user (users st) name email h]\<rparr>)
      | None \<Rightarrow> (Inr (200, Message msg_signup_successful),
          st\<lparr>users := users st @ [new_user (users st) name email h],
             outbox := outbox st @ [welcome_mail E name email],
             session_user := Some email\<rparr>))"
  using assms
  by (simp add: signup_try_def db_insert_def send_email_def welcome_mail_def new_user_def
      Let_def split: option.splits)

lemma login_accepts:
  assumes "get data ''email'' = Some email" "get data ''password'' = Some pw"
    "db_select_password (users st) (Some email) = Some h"
    "checkpw E (encode pw) h = Inr True"
  shows "login E data st = (Inr (200, Message msg_login_successful), st\<lparr>session_user := Some email\<rparr>)"
  using assms by (simp add: login_def del: db_select_password.simps)

lemmas example_defs =
  ravi_signup_def get_def example_state_def example_user_def example_env_def
  example_checkpw_def example_hashpw_def encode_def

text \<open>
  Where bcrypt's check returns \<^verbatim>\<open>False\<close> for the password of the request against
  the hash stored for a registered email, \<^verbatim>\<open>login\<close> answers 401 and leaves the
  state, the session identity included, as it was.
\<close>

lemma login_check_false:
  assumes "get data ''email'' = Some email"
    and "find (\<lambda>u. user_email u = email) (users st) = Some u"
    and "get data ''password'' = Some pw"
    and "checkpw E (encode pw) (user_password u) = Inr False"
  shows "login E data st = (Inr (401, Message msg_invalid_credentials), st)"
  using assms by (simp add: login_def)

lemma long_password_differs: "replicate 73 (CHR ''x'') \<noteq> ''terces''"
proof
  assume "replicate 73 (CHR ''x'') = ''terces''"
  then have "length (replicate 73 (CHR ''x'')) = length ''terces''" by (rule arg_cong)
  then show False by simp
qed

text \<open>
  C4 at a concrete request: \<^verbatim>\<open>login\<close> evaluates
  \<^verbatim>\<open>bcrypt.checkpw(password.encode(), result[0])\<close> outside any \<^verbatim>\<open>try\<close>. For a
  registered email and a wrong password on which that call raises (a 73-byte password
  that does not match the stored hash, and a bcrypt that refuses passwords over 72
  bytes), the exception escapes the handler and the state is unchanged: the answer is
  not the 401 of the claim.
\<close>

theorem login_wrong_password_escapes:
  "find (\<lambda>u. user_email u = ''asha@example.org'') (users (example_state None))
     = Some example_user \<and>
   example_checkpw (encode long_password) (user_password example_user) = Inr False \<and>
   login strict_env long_password_login (example_state None)
     = (Inl (Failure ''password cannot be longer than 72 bytes''), example_state None)"
  by (simp add: login_def get_def long_password_login_def long_password_def strict_env_def
      strict_checkpw_def example_env_def example_state_def example_user_def
      example_checkpw_def example_hashpw_def encode_def long_password_differs)


text \<open>
  C3 at a concrete request: \<^verbatim>\<open>login\<close> validates no field. A request for a
  registered email that carries no password reaches \<^verbatim>\<open>password.encode()\<close> with
  \<open>None\<close>, and the \<^verbatim>\<open>AttributeError\<close> escapes the handler; a request with no
  field at all is answered 401, not 400.
\<close>

theorem login_missing_password_escapes:
  "login (example_env True) [(''email'', Some ''asha@example.org'')] (example_state None)
     = (Inl AttributeError, example_state None) \<and>
   login (example_env True) [] (example_state None)
     = (Inr (401, Message msg_invalid_credentials), example_state None)"
  by (simp add: login_def get_def example_state_def example_user_def)

subsection \<open>Signup\<close>

text \<open>
  C9: signup is not atomic. When all three fields are non-empty, the email is unused,
  bcrypt returns a hash and the relay then refuses the welcome message, \<^verbatim>\<open>signup\<close>
  answers 500 with the relay's error text and sets no session identity, yet the new
  row stays in the table; a later \<^verbatim>\<open>login\<close> with the same body, where bcrypt
  accepts the password against that hash, answers 200 and sets the session identity.
\<close>

theorem signup_mail_failure_persists:
  assumes "truthy (get data ''name'') = Some name"
    and "truthy (get data ''email'') = Some email"
    and "truthy (get data ''password'') = Some pw"
    and "email \<notin> set (map user_email (users st))"
    and "hashpw E (encode pw) (gensalt E) = Inr h"
    and "smtp_send E (welcome_mail E name email) = Some err"
    and "checkpw E' (encode pw) h = Inr True"
  shows "signup E data st =
           (Inr (500, Message (msg_server_error err)),
            st\<lparr>users := users st @ [new_user (users st) name email h]\<rparr>) \<and>
         session_user (snd (signup E data st)) = session_user st \<and>
         login E' data (snd (signup E data st)) =
           (Inr (200, Message msg_login_successful),
            (snd (signup E data st))\<lparr>session_user := Some email\<rparr>)"
proof -
  let ?st = "st\<lparr>users := users st @ [new_user (users st) name email h]\<rparr>"
  have s: "signup E data st = (Inr (500, Message (msg_server_error err)), ?st)"
    using assms by (simp add: signup_def signup_try_fresh)
  have "login E' data ?st =
      (Inr (200, Message msg_login_successful), ?st\<lparr>session_user := Some email\<rparr>)"
  proof (rule login_accepts)
    show "get data ''email'' = Some email" using assms(2) by (rule get_truthy)
    show "get data ''password'' = Some pw" using assms(3) by (rule get_truthy)
    show "db_select_password (users ?st) (Some email) = Some h"
      using select_after_insert [OF assms(4)] by simp
    show "checkpw E' (encode pw) h = Inr True" by (rule assms(7))
  qed
  with s show ?thesis by simp
qed

theorem signup_mail_failure_persists_witness:
  "truthy (get ravi_signup ''name'') = Some ''Ravi'' \<and>
   truthy (get ravi_signup ''email'') = Some ''ravi@example.org'' \<and>
   truthy (get ravi_signup ''password'') = Some ''pw1'' \<and>
   ''ravi@example.org'' \<notin> set (map user_email (users (example_state None))) \<and>
   hashpw (example_env False) (encode ''pw1'') (gensalt (example_env False)) = Inr ''s11wp'' \<and>
   smtp_send (example_env False) (welcome_mail (example_env False) ''Ravi'' ''ravi@example.org'')
     = Some ''connection refused'' \<and>
   checkpw (example_env True) (encode ''pw1'') ''s11wp'' = Inr True \<and>
   fst (signup (example_env False) ravi_signup (example_state None))
     = Inr (500, Message (msg_server_error ''connection refused'')) \<and>
   session_user (snd (signup (example_env False) ravi_signup (example_state None))) = None \<and>
   fst (login (example_env True) ravi_signup
          (snd (signup (example_env False) ravi_signup (example_state None))))
     = Inr (200, Message msg_login_successful)"
proof -
  have a: "truthy (get ravi_signup ''name'') = Some ''Ravi''"
    and b: "truthy (get ravi_signup ''email'') = Some ''ravi@example.org''"
    and c: "truthy (get ravi_signup ''password'') = Some ''pw1''"
    and d: "''ravi@example.org'' \<notin> set (map user_email (users (example_state None)))"
    and e: "hashpw (example_env False) (encode ''pw1'') (gensalt (example_env False))
              = Inr ''s11wp''"
    and f: "smtp_send (example_env False)
              (welcome_mail (example_env False) ''Ravi'' ''ravi@example.org'')
              = Some ''connection refused''"
    and g: "checkpw (example_env True) (encode ''pw1'') ''s11wp'' = Inr True"
    by (simp_all add: example_defs)
  note r = signup_mail_failure_persists [OF a b c d e f g]
  have "fst (signup (example_env False) ravi_signup (example_state None))
          = Inr (500, Message (msg_server_error ''connection refused''))"
    using r by simp
  moreover have "session_user (snd (signup (example_env False) ravi_signup
          (example_state None))) = None"
    using r by (simp add: example_state_def)
  moreover have "fst (login (example_env True) ravi_signup
          (snd (signup (example_env False) ravi_signup (example_state None))))
          = Inr (200, Message msg_login_successful)"
    using conjunct2 [OF conjunct2 [OF r]] by simp
  ultimately show ?thesis using a b c d e f g by blast
qed







subsection \<open>Booking\<close>

lemma booking_body_text:
  "booking_body name address date =
     ''Hi '' @ name
     @ '',\<newline>\<newline>Thanks for booking your Water Testing Kit with ''
     @ [CHR 0xF0, CHR 0x9F, CHR 0x92, CHR 0xA7]
     @ '' WaterGuard!\<newline>\<newline>'' @ [CHR 0xF0, CHR 0x9F, CHR 0x93, CHR 0x8D]
     @ '' Address:\<newline>'' @ address @ ''\<newline>\<newline>''
     @ [CHR 0xF0, CHR 0x9F, CHR 0x93, CHR 0xA6]
     @ '' Your kit will reach your doorstep by: '' @ date @ ''\<newline>\<newline>''
     @ [CHR 0xF0, CHR 0x9F, CHR 0x93, CHR 0x98] @ '' The kit includes:\<newline>''
     @ ''- pH Level Tester\<newline>- TDS Meter\<newline>- Turbidity Check\<newline>''
     @ ''- Temperature Sensor\<newline>- Setup Manual\<newline>\<newline>''
     @ ''Stay safe & drink clean '' @ [CHR 0xF0, CHR 0x9F, CHR 0x8C, CHR 0x8A]
     @ ''\<newline>'' @ [CHR 0xE2, CHR 0x80, CHR 0x94] @ '' Team WaterGuard\<newline>''"
  by (simp add: booking_body_def droplet_def em_dash_def)

lemma booking_body_name: "prefix (''Hi '' @ name @ '','') (booking_body name address date)"
  by (simp add: booking_body_def)

lemma booking_body_address:
  "sublist (''Address:\<newline>'' @ address @ ''\<newline>'') (booking_body name address date)"
proof -
  have "\<exists>ps ss. booking_body name address date
          = ps @ (''Address:\<newline>'' @ address @ ''\<newline>'') @ ss"
    unfolding booking_body_text
    by (rule exI [of _ "''Hi '' @ name
     @ '',\<newline>\<newline>Thanks for booking your Water Testing Kit with ''
     @ [CHR 0xF0, CHR 0x9F, CHR 0x92, CHR 0xA7]
     @ '' WaterGuard!\<newline>\<newline>'' @ [CHR 0xF0, CHR 0x9F, CHR 0x93, CHR 0x8D] @ '' ''"])
      (simp)
  then show ?thesis by (simp add: sublist_def)
qed

lemma booking_body_date:
  "sublist (''doorstep by: '' @ date @ ''\<newline>'') (booking_body name address date)"
proof -
  have "\<exists>ps ss. booking_body name address date
          = ps @ (''doorstep by: '' @ date @ ''\<newline>'') @ ss"
    unfolding booking_body_text
    by (rule exI [of _ "''Hi '' @ name
     @ '',\<newline>\<newline>Thanks for booking your Water Testing Kit with ''
     @ [CHR 0xF0, CHR 0x9F, CHR 0x92, CHR 0xA7]
     @ '' WaterGuard!\<newline>\<newline>'' @ [CHR 0xF0, CHR 0x9F, CHR 0x93, CHR 0x8D]
     @ '' Address:\<newline>'' @ address @ ''\<newline>\<newline>''
     @ [CHR 0xF0, CHR 0x9F, CHR 0x93, CHR 0xA6]
     @ '' Your kit will reach your ''"])
      (simp)
  then show ?thesis by (simp add: sublist_def)
qed

text \<open>
  C10: with a session identity, \<^verbatim>\<open>book-kit\<close> hands the relay exactly one message,
  addressed to the \<^verbatim>\<open>email\<close> field of the body (whoever is logged in). Its text is
  the source's template with \<^verbatim>\<open>str\<close> of the \<^verbatim>\<open>name\<close>, \<^verbatim>\<open>address\<close> and \<^verbatim>\<open>date\<close>
  fields: with a missing name it starts \<^verbatim>\<open>Hi None,\<close>, with a missing address it
  contains the line \<^verbatim>\<open>None\<close> under \<^verbatim>\<open>Address:\<close>, with a missing date it contains
  \<^verbatim>\<open>doorstep by: None\<close>. The answer is 200, with the message recorded, when the relay
  accepts it, and 500 with the relay's error text otherwise; it is never 400.
\<close>

theorem book_kit_authenticated:
  assumes "session_user st = Some who"
  shows "book_kit E data st =
           (case smtp_send E (booking_mail E data) of
              None \<Rightarrow> (Inr (200, Message msg_booking_confirmed),
                        st\<lparr>outbox := outbox st @ [booking_mail E data]\<rparr>)
            | Some e \<Rightarrow> (Inr (500, Message (msg_sending_failed e)), st)) \<and>
         mail_to (booking_mail E data) = get data ''email'' \<and>
         mail_body (booking_mail E data) =
           ''Hi '' @ pystr (get data ''name'')
           @ '',\<newline>\<newline>Thanks for booking your Water Testing Kit with ''
           @ [CHR 0xF0, CHR 0x9F, CHR 0x92, CHR 0xA7]
           @ '' WaterGuard!\<newline>\<newline>'' @ [CHR 0xF0, CHR 0x9F, CHR 0x93, CHR 0x8D]
           @ '' Address:\<newline>'' @ pystr (get data ''address'') @ ''\<newline>\<newline>''
           @ [CHR 0xF0, CHR 0x9F, CHR 0x93, CHR 0xA6]
           @ '' Your kit will reach your doorstep by: '' @ pystr (get data ''date'')
           @ ''\<newline>\<newline>''
           @ [CHR 0xF0, CHR 0x9F, CHR 0x93, CHR 0x98] @ '' The kit includes:\<newline>''
           @ ''- pH Level Tester\<newline>- TDS Meter\<newline>- Turbidity Check\<newline>''
           @ ''- Temperature Sensor\<newline>- Setup Manual\<newline>\<newline>''
           @ ''Stay safe & drink clean '' @ [CHR 0xF0, CHR 0x9F, CHR 0x8C, CHR 0x8A]
           @ ''\<newline>'' @ [CHR 0xE2, CHR 0x80, CHR 0x94] @ '' Team WaterGuard\<newline>'' \<and>
         (get data ''name'' = None \<longrightarrow>
            prefix ''Hi None,'' (mail_body (booking_mail E data))) \<and>
         (get data ''address'' = None \<longrightarrow>
            sublist ''Address:\<newline>None\<newline>'' (mail_body (booking_mail E data))) \<and>
         (get data ''date'' = None \<longrightarrow>
            sublist ''doorstep by: None\<newline>'' (mail_body (booking_mail E data))) \<and>
         fst (book_kit E data st) \<noteq> Inr (400, b)"
proof -
  let ?m = "booking_mail E data"
  have run: "book_kit E data st =
           (case smtp_send E ?m of
              None \<Rightarrow> (Inr (200, Message msg_booking_confirmed),
                        st\<lparr>outbox := outbox st @ [?m]\<rparr>)
            | Some e \<Rightarrow> (Inr (500, Message (msg_sending_failed e)), st))"
    using assms
    by (simp add: book_kit_def booking_mail_def send_email_def Let_def split: option.splits)
  have rcpt: "mail_to ?m = get data ''email''"
    by (simp add: booking_mail_def)
  have body: "mail_body ?m =
      booking_body (pystr (get data ''name'')) (pystr (get data ''address''))
        (pystr (get data ''date''))"
    by (simp add: booking_mail_def)
  have n: "get data ''name'' = None \<longrightarrow> prefix ''Hi None,'' (mail_body ?m)"
    using booking_body_name [of "''None''"] by (simp add: body)
  have a: "get data ''address'' = None \<longrightarrow>
      sublist ''Address:\<newline>None\<newline>'' (mail_body ?m)"
    using booking_body_address [of "''None''"] by (simp add: body)
  have d: "get data ''date'' = None \<longrightarrow>
      sublist ''doorstep by: None\<newline>'' (mail_body ?m)"
    using booking_body_date [of "''None''"] by (simp add: body)
  have no400: "fst (book_kit E data st) \<noteq> Inr (400, b)"
    by (simp add: run split: option.splits)
  show ?thesis
    using run rcpt n a d no400 unfolding body booking_body_text by simp
qed

theorem book_kit_authenticated_witness:
  "session_user (example_state (Some ''asha@example.org'')) = Some ''asha@example.org'' \<and>
   get kit_request ''name'' = None \<and> get kit_request ''address'' = None \<and>
   get kit_request ''date'' = None \<and>
   fst (book_kit (example_env True) kit_request (example_state (Some ''asha@example.org'')))
     = Inr (200, Message msg_booking_confirmed) \<and>
   outbox (snd (book_kit (example_env True) kit_request
                  (example_state (Some ''asha@example.org''))))
     = [booking_mail (example_env True) kit_request] \<and>
   mail_to (booking_mail (example_env True) kit_request) = Some ''someone.else@example.org'' \<and>
   prefix ''Hi None,'' (mail_body (booking_mail (example_env True) kit_request)) \<and>
   sublist ''Address:\<newline>None\<newline>''
     (mail_body (booking_mail (example_env True) kit_request)) \<and>
   sublist ''doorstep by: None\<newline>''
     (mail_body (booking_mail (example_env True) kit_request)) \<and>
   fst (book_kit (example_env False) kit_request (example_state (Some ''asha@example.org'')))
     = Inr (500, Message (msg_sending_failed ''connection refused''))"
proof -
  let ?st = "example_state (Some ''asha@example.org'')"
  have h: "session_user ?st = Some ''asha@example.org''"
    by (simp add: example_state_def)
  have f: "get kit_request ''name'' = None" "get kit_request ''address'' = None"
      "get kit_request ''date'' = None" "get kit_request ''email'' = Some ''someone.else@example.org''"
    by (simp_all add: kit_request_def get_def)
  note up = book_kit_authenticated [OF h, of "example_env True" kit_request "Message []"]
  note down = book_kit_authenticated [OF h, of "example_env False" kit_request "Message []"]
  have sent: "smtp_send (example_env True) (booking_mail (example_env True) kit_request) = None"
    and refused: "smtp_send (example_env False) (booking_mail (example_env False) kit_request)
      = Some ''connection refused''"
    by (simp_all add: example_env_def)
  have r1: "book_kit (example_env True) kit_request ?st =
      (Inr (200, Message msg_booking_confirmed),
       ?st\<lparr>outbox := outbox ?st @ [booking_mail (example_env True) kit_request]\<rparr>)"
    using conjunct1 [OF up] by (simp add: sent)
  have r2: "book_kit (example_env False) kit_request ?st =
      (Inr (500, Message (msg_sending_failed ''connection refused'')), ?st)"
    using conjunct1 [OF down] by (simp add: refused)
  have "fst (book_kit (example_env True) kit_request ?st)
      = Inr (200, Message msg_booking_confirmed)"
    by (simp add: r1)
  moreover have "outbox (snd (book_kit (example_env True) kit_request ?st))
      = [booking_mail (example_env True) kit_request]"
  proof -
    have "outbox ?st = []" by (simp add: example_state_def)
    then show ?thesis by (simp add: r1)
  qed
  moreover have "mail_to (booking_mail (example_env True) kit_request)
      = Some ''someone.else@example.org''"
    using up f by simp
  moreover have "prefix ''Hi None,'' (mail_body (booking_mail (example_env True) kit_request))"
    using up f by blast
  moreover have "sublist ''Address:\<newline>None\<newline>''
      (mail_body (booking_mail (example_env True) kit_request))"
    using up f by blast
  moreover have "sublist ''doorstep by: None\<newline>''
      (mail_body (booking_mail (example_env True) kit_request))"
    using up f by blast
  moreover have "fst (book_kit (example_env False) kit_request ?st)
      = Inr (500, Message (msg_sending_failed ''connection refused''))"
    by (simp add: r2)
  ultimately show ?thesis using h f by blast
qed


end
